theory Spec2Isabelle
  imports Complex_Main "HOL-Library.Sublist"
begin

section \<open>Errors, sensors and the raw sample source\<close>

text \<open>
  The Python exceptions that the modelled code can raise. The sampling code defines no
  exception classes of its own: a missing calibration coefficient surfaces as the
  \<open>TypeError\<close> of arithmetic on \<open>None\<close>, a bad chamber or side as the \<open>ValueError\<close> of
  \<open>LoadCell.__init__\<close>, an empty list of samples as \<open>ZeroDivisionError\<close>, a bad list
  index as \<open>IndexError\<close>. \<open>OSError\<close> stands for a failure of an external driver,
  \<open>ParameterValidationError\<close> for the refusal of a binding by the HX711 driver.

  Python floats are modelled as \<open>real\<close>: arithmetic is exact, rounding is not modelled.
\<close>

datatype error =
  ValueError | TypeError | ZeroDivisionError | IndexError | OSError | ParameterValidationError

text \<open>
  Sequencing of statements that may raise: \<open>raising r f\<close> continues with \<open>f\<close> on
  the value of \<open>r\<close>, and is the exception of \<open>r\<close> when there is one.
\<close>

definition raising :: "error + 'a \<Rightarrow> ('a \<Rightarrow> error + 'b) \<Rightarrow> error + 'b" where
  "raising r f = (case r of Inl e \<Rightarrow> Inl e | Inr v \<Rightarrow> f v)"

text \<open>
  \<open>components/load_cell.py\<close>, class \<open>LoadCell(hx711.HX711)\<close>. The object is the HX711
  device itself, so the samples the device is going to deliver are part of its state
  (\<open>raw_stream\<close>). The attributes \<open>id\<close>, \<open>m\<close> and \<open>b\<close> are the fields \<open>id_str\<close>,
  \<open>m_slope\<close> and \<open>b_intercept\<close>; \<open>offset\<close> is \<open>None\<close> until \<open>tare\<close> creates
  the attribute.
\<close>

record LoadCell =
  raw_stream :: "int list"
  data_pin :: int
  clock_pin :: int
  gain :: int
  channel :: string
  id_str :: string
  m_slope :: "real option"
  b_intercept :: "real option"
  offset :: "real option"

text \<open>
  \<open>HX711.get_raw_data(times)\<close> belongs to the external driver. It is modelled by the
  raw-source contract: an ordered sequence of up to \<open>times\<close> integers, and the device
  moves on, so that a later call sees later samples.
\<close>

definition get_raw_data :: "nat \<Rightarrow> LoadCell \<Rightarrow> int list \<times> LoadCell" where
  "get_raw_data n c = (take n (raw_stream c), c\<lparr>raw_stream := drop n (raw_stream c)\<rparr>)"

text \<open>\<open>sum(readings) / len(readings)\<close> on a list of Python ints.\<close>

definition py_mean :: "int list \<Rightarrow> error + real" where
  "py_mean readings =
     (if length readings = 0 then Inl ZeroDivisionError
      else Inr (real_of_int (sum_list readings) / real (length readings)))"

text \<open>
  \<open>numpy.quantile(a, q)\<close> with the default linear interpolation: on the sorted values,
  the virtual index \<open>(n - 1) * q\<close> is split into its floor and its fractional part, and
  the result interpolates between the two neighbouring values. A \<open>q\<close> outside
  \<open>[0, 1]\<close> and an empty array raise.
\<close>

definition quantile :: "int list \<Rightarrow> real \<Rightarrow> error + real" where
  "quantile a q =
     (if q < 0 \<or> 1 < q then Inl ValueError
      else if a = [] then Inl IndexError
      else let arr = sort a;
               n = length arr;
               virtual_index = real (n - 1) * q;
               previous_index = nat \<lfloor>virtual_index\<rfloor>;
               next_index = min (previous_index + 1) (n - 1);
               gamma = virtual_index - real previous_index
           in Inr (real_of_int (arr ! previous_index)
                   + real_of_int (arr ! next_index - arr ! previous_index) * gamma))"

text \<open>\<open>LoadCell.tare\<close>: the mean of \<open>sample_size\<close> raw samples becomes \<open>offset\<close>.\<close>

definition tare :: "nat \<Rightarrow> LoadCell \<Rightarrow> error + LoadCell" where
  "tare sample_size c =
     (case get_raw_data sample_size c of (readings, c') \<Rightarrow>
        (case py_mean readings of
           Inl e \<Rightarrow> Inl e
         | Inr average_val \<Rightarrow> Inr (c'\<lparr>offset := Some average_val\<rparr>)))"

text \<open>
  \<open>LoadCell.take_measurement\<close>: ten raw samples, the boolean mask
  \<open>(readings > quantile(readings, 0.1)) & (readings < quantile(readings, 0.9))\<close>,
  and the mean of the samples that the mask keeps.
\<close>

definition take_measurement :: "LoadCell \<Rightarrow> error + (real \<times> LoadCell)" where
  "take_measurement c =
     (case get_raw_data 10 c of (readings, c') \<Rightarrow>
        (case quantile readings (1 / 10) of
           Inl e \<Rightarrow> Inl e
         | Inr q10 \<Rightarrow>
            (case quantile readings (9 / 10) of
               Inl e \<Rightarrow> Inl e
             | Inr q90 \<Rightarrow>
                (case py_mean (filter (\<lambda>r. q10 < real_of_int r \<and> real_of_int r < q90) readings) of
                   Inl e \<Rightarrow> Inl e
                 | Inr measurement \<Rightarrow> Inr (measurement, c')))))"

text \<open>
  \<open>LoadCell.get_mass\<close>: \<open>self.m * measurement + self.b\<close>. The measurement is taken
  first; \<open>None * float\<close> and \<open>float + None\<close> raise \<open>TypeError\<close>.
\<close>

definition get_mass :: "LoadCell \<Rightarrow> error + (real \<times> LoadCell)" where
  "get_mass c =
     (case take_measurement c of
        Inl e \<Rightarrow> Inl e
      | Inr (measurement, c') \<Rightarrow>
         (case m_slope c' of
            None \<Rightarrow> Inl TypeError
          | Some mv \<Rightarrow>
             (case b_intercept c' of
                None \<Rightarrow> Inl TypeError
              | Some bv \<Rightarrow> Inr (mv * measurement + bv, c'))))"

text \<open>A sensor used in the concrete checks below: pins 5 and 6, chamber 1, left side.\<close>

definition demo_cell :: "int list \<Rightarrow> real option \<Rightarrow> real option \<Rightarrow> LoadCell" where
  "demo_cell samples mv bv =
     \<lparr>raw_stream = samples, data_pin = 5, clock_pin = 6, gain = 128, channel = ''A'',
      id_str = ''1L'', m_slope = mv, b_intercept = bv, offset = None\<rparr>"



section \<open>Strings: \<open>str\<close>, \<open>int\<close>, \<open>upper\<close>, \<open>split\<close>, indexing\<close>

text \<open>
  Strings are byte strings here, which covers every string the persistence code writes.
  \<open>str(n)\<close> of a Python int is its decimal numeral, with a minus sign when negative.
\<close>

definition digit_char :: "nat \<Rightarrow> char" where
  "digit_char d = char_of (48 + d)"

function show_nat :: "nat \<Rightarrow> string" where
  "show_nat n = (if n < 10 then [digit_char n] else show_nat (n div 10) @ [digit_char (n mod 10)])"
  by pat_completeness auto
termination
  by (relation "measure id") auto

declare show_nat.simps [simp del]

definition str_int :: "int \<Rightarrow> string" where
  "str_int i = (if i < 0 then CHR ''-'' # show_nat (nat (- i)) else show_nat (nat i))"

text \<open>
  \<open>int(s)\<close>: surrounding whitespace is stripped, one sign is allowed, and the digits may
  be grouped by single underscores; anything else raises \<open>ValueError\<close>.
\<close>

definition is_digit :: "char \<Rightarrow> bool" where
  "is_digit c = (48 \<le> (of_char c :: nat) \<and> (of_char c :: nat) \<le> 57)"

definition digit_val :: "char \<Rightarrow> nat" where
  "digit_val c = of_char c - 48"

definition is_space :: "char \<Rightarrow> bool" where
  "is_space c = ((9 \<le> (of_char c :: nat) \<and> (of_char c :: nat) \<le> 13) \<or> (of_char c :: nat) = 32)"

definition py_strip :: "string \<Rightarrow> string" where
  "py_strip s = rev (dropWhile is_space (rev (dropWhile is_space s)))"

fun digits_from :: "nat \<Rightarrow> string \<Rightarrow> nat option" where
  "digits_from acc [] = Some acc"
| "digits_from acc (c # cs) =
     (if is_digit c then digits_from (10 * acc + digit_val c) cs
      else if c = CHR ''_'' then
        (case cs of
           [] \<Rightarrow> None
         | d # ds \<Rightarrow> if is_digit d then digits_from (10 * acc + digit_val d) ds else None)
      else None)"

definition digits :: "string \<Rightarrow> nat option" where
  "digits s = (case s of [] \<Rightarrow> None
               | c # cs \<Rightarrow> if is_digit c then digits_from (digit_val c) cs else None)"

definition py_int :: "string \<Rightarrow> error + int" where
  "py_int s =
     (case py_strip s of
        [] \<Rightarrow> Inl ValueError
      | c # cs \<Rightarrow>
         (if c = CHR ''-'' then (case digits cs of None \<Rightarrow> Inl ValueError | Some n \<Rightarrow> Inr (- int n))
          else if c = CHR ''+'' then (case digits cs of None \<Rightarrow> Inl ValueError | Some n \<Rightarrow> Inr (int n))
          else (case digits (c # cs) of None \<Rightarrow> Inl ValueError | Some n \<Rightarrow> Inr (int n))))"

text \<open>\<open>s.upper()\<close> on ASCII letters.\<close>

definition py_upper :: "string \<Rightarrow> string" where
  "py_upper s = map (\<lambda>c. if 97 \<le> (of_char c :: nat) \<and> (of_char c :: nat) \<le> 122
                          then char_of ((of_char c :: nat) - 32) else c) s"

text \<open>\<open>s.split(sep)\<close> for a one-character separator: the result is never empty.\<close>

fun py_split :: "char \<Rightarrow> string \<Rightarrow> string list" where
  "py_split sep [] = [[]]"
| "py_split sep (c # cs) =
     (if c = sep then [] # py_split sep cs
      else (case py_split sep cs of [] \<Rightarrow> [[c]] | w # ws \<Rightarrow> (c # w) # ws))"

text \<open>
  \<open>xs[i]\<close>: a negative index counts from the end, an index out of range raises
  \<open>IndexError\<close>. \<open>py_position\<close> is the position that \<open>xs[i]\<close> denotes.
\<close>

definition py_position :: "'a list \<Rightarrow> int \<Rightarrow> error + nat" where
  "py_position xs i =
     (if 0 \<le> i \<and> i < int (length xs) then Inr (nat i)
      else if i < 0 \<and> - int (length xs) \<le> i then Inr (nat (int (length xs) + i))
      else Inl IndexError)"

definition py_index :: "'a list \<Rightarrow> int \<Rightarrow> error + 'a" where
  "py_index xs i = (case py_position xs i of Inl e \<Rightarrow> Inl e | Inr k \<Rightarrow> Inr (xs ! k))"

text \<open>\<open>xs.insert(index, x)\<close> for a non-negative index: beyond the end it appends.\<close>

definition py_insert :: "nat \<Rightarrow> 'a \<Rightarrow> 'a list \<Rightarrow> 'a list" where
  "py_insert index x xs = take index xs @ x # drop index xs"


section \<open>Sensor construction and the sensor array\<close>

text \<open>
  \<open>LoadCell.__init__\<close>. Its first statement is the call of the driver's constructor,
  \<open>super().__init__(data_pin, clock_pin, gain, channel)\<close>, which belongs to the external
  driver: the first argument \<open>hx711\<close> stands for it, and gives the sample stream of the
  device it binds, or the exception with which it refuses the binding. The checks of
  chamber and side come after it.
\<close>

definition LoadCell_init ::
  "(int \<Rightarrow> int \<Rightarrow> int \<Rightarrow> string \<Rightarrow> error + int list) \<Rightarrow> int \<Rightarrow> int \<Rightarrow> int \<Rightarrow> string \<Rightarrow> int \<Rightarrow> string
     \<Rightarrow> real option \<Rightarrow> real option \<Rightarrow> error + LoadCell" where
  "LoadCell_init hx711 dp cp g ch chamber side mv bv =
     raising (hx711 dp cp g ch) (\<lambda>device.
       if chamber \<notin> set [1, 2, 3, 4] then Inl ValueError
       else if py_upper side \<notin> set [''L'', ''R''] then Inl ValueError
       else Inr \<lparr>raw_stream = device, data_pin = dp, clock_pin = cp, gain = g, channel = ch,
                 id_str = str_int chamber @ py_upper side,
                 m_slope = mv, b_intercept = bv, offset = None\<rparr>)"

text \<open>\<open>LoadCellArray\<close>: \<open>cells\<close> is a list of four chamber lists.\<close>

record LoadCellArray =
  cells :: "LoadCell list list"
  num_cells :: nat

text \<open>
  The body of the loop of \<open>LoadCellArray.__init__\<close>: the side character of \<open>cell.id\<close>
  chooses the index, its chamber digit chooses the chamber list, and the cell is
  inserted there. Nothing looks at what the chamber list already holds.
\<close>

definition place_cell :: "LoadCell list list \<Rightarrow> LoadCell \<Rightarrow> error + LoadCell list list" where
  "place_cell grid cell =
     raising (py_index (id_str cell) 1) (\<lambda>side.
     raising (py_index (id_str cell) 0) (\<lambda>digit.
     raising (py_int [digit]) (\<lambda>chamber.
     raising (py_position grid (chamber - 1)) (\<lambda>k.
       Inr (grid[k := py_insert (if side = CHR ''L'' then 0 else 1) cell (grid ! k)])))))"

fun place_cells :: "LoadCell list list \<Rightarrow> nat \<Rightarrow> LoadCell list \<Rightarrow> error + LoadCellArray" where
  "place_cells grid n [] = Inr \<lparr>cells = grid, num_cells = n\<rparr>"
| "place_cells grid n (cell # rest) =
     (case place_cell grid cell of
        Inl e \<Rightarrow> Inl e
      | Inr grid' \<Rightarrow> place_cells grid' (n + 1) rest)"

text \<open>\<open>LoadCellArray.__init__(cells)\<close>; \<open>cells=None\<close> is the empty list.\<close>

definition LoadCellArray_init :: "LoadCell list \<Rightarrow> error + LoadCellArray" where
  "LoadCellArray_init cs = place_cells [[], [], [], []] 0 cs"

text \<open>
  \<open>LoadCellArray.take_measurement\<close>: every chamber in turn, every cell of the chamber in
  turn; an exception of \<open>get_mass\<close> leaves the method, and the list built so far with it.
\<close>

fun measure_chamber :: "LoadCell list \<Rightarrow> error + (real list \<times> LoadCell list)" where
  "measure_chamber [] = Inr ([], [])"
| "measure_chamber (cell # rest) =
     (case get_mass cell of
        Inl e \<Rightarrow> Inl e
      | Inr (mass, cell') \<Rightarrow>
         (case measure_chamber rest of
            Inl e \<Rightarrow> Inl e
          | Inr (data, rest') \<Rightarrow> Inr (mass # data, cell' # rest')))"

fun measure_chambers :: "LoadCell list list \<Rightarrow> error + (real list \<times> LoadCell list list)" where
  "measure_chambers [] = Inr ([], [])"
| "measure_chambers (chamber # rest) =
     (case measure_chamber chamber of
        Inl e \<Rightarrow> Inl e
      | Inr (data, chamber') \<Rightarrow>
         (case measure_chambers rest of
            Inl e \<Rightarrow> Inl e
          | Inr (data', rest') \<Rightarrow> Inr (data @ data', chamber' # rest')))"

definition LoadCellArray_take_measurement :: "LoadCellArray \<Rightarrow> error + (real list \<times> LoadCellArray)" where
  "LoadCellArray_take_measurement arr =
     (case measure_chambers (cells arr) of
        Inl e \<Rightarrow> Inl e
      | Inr (data, grid) \<Rightarrow> Inr (data, arr\<lparr>cells := grid\<rparr>))"


text \<open>
  The grid of the data model: four chambers, each holding no sensor, its left sensor, its
  right sensor, or the left one followed by the right one; a sensor's \<open>id\<close> is its
  chamber digit followed by its side.
\<close>

definition chamber_ok :: "char \<Rightarrow> LoadCell list \<Rightarrow> bool" where
  "chamber_ok d cs =
     (map id_str cs \<in> set [[], [[d, CHR ''L'']], [[d, CHR ''R'']], [[d, CHR ''L''], [d, CHR ''R'']]])"

definition slot_ids :: "string list" where
  "slot_ids = [''1L'', ''1R'', ''2L'', ''2R'', ''3L'', ''3R'', ''4L'', ''4R'']"

definition grid_ok :: "LoadCell list list \<Rightarrow> bool" where
  "grid_ok g =
     (case g of
        [c1, c2, c3, c4] \<Rightarrow>
          chamber_ok CHR ''1'' c1 \<and> chamber_ok CHR ''2'' c2 \<and> chamber_ok CHR ''3'' c3
          \<and> chamber_ok CHR ''4'' c4
      | _ \<Rightarrow> False)"


section \<open>Persistence of the array\<close>

text \<open>
  \<open>str(x)\<close> and \<open>float(s)\<close> for floats are parameters of the persistence functions
  (\<open>str_float\<close>, and \<open>py_float\<close> with \<open>None\<close> for \<open>ValueError\<close>). \<open>save_array\<close>
  returns the text it writes to \<open>cache/load_cells.txt\<close>; \<open>load_array\<close> takes the text
  it reads there. Opening the file and changing directory are not modelled.
\<close>

definition str_coefficient :: "(real \<Rightarrow> string) \<Rightarrow> real option \<Rightarrow> string" where
  "str_coefficient str_float x = (case x of None \<Rightarrow> ''None'' | Some v \<Rightarrow> str_float v)"

definition write_str :: "(real \<Rightarrow> string) \<Rightarrow> LoadCell \<Rightarrow> string" where
  "write_str str_float cell =
     str_int (data_pin cell) @ '','' @ str_int (clock_pin cell) @ '','' @ str_int (gain cell) @ '',''
     @ channel cell @ '','' @ id_str cell @ '','' @ str_coefficient str_float (m_slope cell) @ '',''
     @ str_coefficient str_float (b_intercept cell) @ ''|''"

definition save_array :: "(real \<Rightarrow> string) \<Rightarrow> LoadCellArray \<Rightarrow> string" where
  "save_array str_float arr = concat (map (\<lambda>chamber. concat (map (write_str str_float) chamber)) (cells arr))"

definition parse_coefficient :: "(string \<Rightarrow> real option) \<Rightarrow> string \<Rightarrow> error + real option" where
  "parse_coefficient py_float s =
     (if s \<noteq> ''None'' then (case py_float s of None \<Rightarrow> Inl ValueError | Some v \<Rightarrow> Inr (Some v))
      else Inr None)"

text \<open>
  One iteration of the loop of \<open>load_array\<close>, on the text of one record. In the last
  statement \<open>self.cells[chamber - 1]\<close> is evaluated before the \<open>LoadCell\<close> is constructed.
  \<open>hw\<close> is the driver's constructor.
\<close>

definition load_record ::
  "(int \<Rightarrow> int \<Rightarrow> int \<Rightarrow> string \<Rightarrow> error + int list) \<Rightarrow> (string \<Rightarrow> real option) \<Rightarrow> LoadCell list list \<Rightarrow> string
     \<Rightarrow> error + LoadCell list list" where
  "load_record hw py_float grid record_text =
     (let fields = py_split CHR '','' record_text in
      raising (py_index fields 0) (\<lambda>f0.
      raising (py_int f0) (\<lambda>dp.
      raising (py_index fields 1) (\<lambda>f1.
      raising (py_int f1) (\<lambda>cp.
      raising (py_index fields 2) (\<lambda>f2.
      raising (py_int f2) (\<lambda>g.
      raising (py_index fields 3) (\<lambda>ch.
      raising (py_index fields 4) (\<lambda>f4.
      raising (py_index f4 0) (\<lambda>digit.
      raising (py_int [digit]) (\<lambda>chamber.
      raising (py_index f4 1) (\<lambda>side.
      raising (py_index fields 5) (\<lambda>f5.
      raising (parse_coefficient py_float f5) (\<lambda>mv.
      raising (py_index fields 6) (\<lambda>f6.
      raising (parse_coefficient py_float f6) (\<lambda>bv.
      raising (py_position grid (chamber - 1)) (\<lambda>k.
      raising (LoadCell_init hw dp cp g ch chamber [side] mv bv) (\<lambda>cell.
        Inr (grid[k := py_insert (if side = CHR ''L'' then 0 else 1) cell (grid ! k)])))))))))))))))))))"

text \<open>
  The loop of \<open>load_array\<close>: an exception leaves the chamber lists as the records before
  it have made them.
\<close>

fun load_records ::
  "(int \<Rightarrow> int \<Rightarrow> int \<Rightarrow> string \<Rightarrow> error + int list) \<Rightarrow> (string \<Rightarrow> real option) \<Rightarrow> LoadCell list list \<Rightarrow> string list
     \<Rightarrow> LoadCell list list \<times> error option" where
  "load_records hw py_float grid [] = (grid, None)"
| "load_records hw py_float grid (r # rs) =
     (case load_record hw py_float grid r of
        Inl e \<Rightarrow> (grid, Some e)
      | Inr grid' \<Rightarrow> load_records hw py_float grid' rs)"

text \<open>
  \<open>LoadCellArray.load_array\<close>: the text is split at \<open>|\<close>, the last piece is dropped,
  \<open>num_cells\<close> is set, and the records are inserted into the chamber lists that the
  array already has. The result is the array after the call and the exception, if any.
\<close>

definition load_array ::
  "(int \<Rightarrow> int \<Rightarrow> int \<Rightarrow> string \<Rightarrow> error + int list) \<Rightarrow> (string \<Rightarrow> real option) \<Rightarrow> LoadCellArray \<Rightarrow> string
     \<Rightarrow> LoadCellArray \<times> error option" where
  "load_array hw py_float arr data_string =
     (let records = butlast (py_split CHR ''|'' data_string)
      in case load_records hw py_float (cells arr) records of
           (grid, err) \<Rightarrow> (\<lparr>cells = grid, num_cells = length records\<rparr>, err))"


text \<open>
  What persistence needs of a sensor: the channel contains neither delimiter, and for each
  coefficient that is set, \<open>str\<close> gives a text without delimiters that is not \<open>None\<close>
  and that \<open>float\<close> reads back as the same number (as Python's \<open>str\<close> and \<open>float\<close>
  do for every float).
\<close>

definition no_delimiter :: "string \<Rightarrow> bool" where
  "no_delimiter s = (CHR '','' \<notin> set s \<and> CHR ''|'' \<notin> set s)"

definition coefficient_ok :: "(real \<Rightarrow> string) \<Rightarrow> (string \<Rightarrow> real option) \<Rightarrow> real option \<Rightarrow> bool" where
  "coefficient_ok str_float py_float x =
     (case x of
        None \<Rightarrow> True
      | Some v \<Rightarrow> no_delimiter (str_float v) \<and> str_float v \<noteq> ''None''
                  \<and> py_float (str_float v) = Some v)"

definition persistable :: "(real \<Rightarrow> string) \<Rightarrow> (string \<Rightarrow> real option) \<Rightarrow> LoadCell \<Rightarrow> bool" where
  "persistable str_float py_float c =
     (no_delimiter (channel c) \<and> coefficient_ok str_float py_float (m_slope c)
      \<and> coefficient_ok str_float py_float (b_intercept c))"

text \<open>The text of a sensor's record without the closing \<open>|\<close>.\<close>

definition record_text :: "(real \<Rightarrow> string) \<Rightarrow> LoadCell \<Rightarrow> string" where
  "record_text str_float cell = butlast (write_str str_float cell)"

text \<open>
  A sensor is constructible when the driver accepts its binding, as it did when the sensor
  was made. The sensor that \<open>load_array\<close> constructs from the record of a sensor is a new
  object on the same binding, with the same persisted fields and no \<open>offset\<close> attribute.
\<close>

definition constructible :: "(int \<Rightarrow> int \<Rightarrow> int \<Rightarrow> string \<Rightarrow> error + int list) \<Rightarrow> LoadCell \<Rightarrow> bool" where
  "constructible hw c =
     (case hw (data_pin c) (clock_pin c) (gain c) (channel c) of Inl e \<Rightarrow> False | Inr device \<Rightarrow> True)"

definition reloaded :: "(int \<Rightarrow> int \<Rightarrow> int \<Rightarrow> string \<Rightarrow> error + int list) \<Rightarrow> LoadCell \<Rightarrow> LoadCell" where
  "reloaded hw c =
     c\<lparr>raw_stream := (case hw (data_pin c) (clock_pin c) (gain c) (channel c) of
                        Inl e \<Rightarrow> raw_stream c | Inr device \<Rightarrow> device),
       offset := None\<rparr>"


section \<open>The measurement coordinator\<close>

text \<open>
  \<open>gui.py\<close>, \<open>MeasurementCoordinator.run\<close>. What the worker does to the outside is a
  list of events: what it prints, the results it emits on \<open>rht_signals.result\<close> and
  \<open>mass_signals.result\<close>, its calls of \<open>sleep\<close>, and the \<open>read\<close> signal.
\<close>

datatype event =
    Printed error
  | RhtResult "(real \<times> real) list"
  | MassResult "real list"
  | Slept real
  | ReadSignal

text \<open>
  What one pass through the loop body reads from the outside: \<open>controls['measure']\<close>,
  the three results of \<open>time()\<close>, and the result of \<open>rht_array.take_measurement()\<close>.
  \<open>RHTSensorArray\<close> (\<open>components/sht45.py\<close>) is outside the code modelled here, so
  what its method returns or raises is an input of the pass.
\<close>

record cycle_input =
  measure_flag :: bool
  start_time :: real
  rht_read :: "error + (real \<times> real) list"
  stamp_time :: real
  stop_time :: real

datatype cycle_end = Break | Next LoadCellArray | Raise error

text \<open>
  One pass through the body of \<open>while True\<close>: \<open>break\<close> when the flag is off;
  \<open>print(e); continue\<close> when the environmental read raises; otherwise the environmental
  result is emitted, the mass array is read (an exception there is not caught), the mass
  result is emitted with the time stamp in front, and the pass sleeps for what is left of
  the interval.
\<close>

definition cycle :: "int \<Rightarrow> LoadCellArray \<Rightarrow> cycle_input \<Rightarrow> event list \<times> cycle_end" where
  "cycle interval mass_array inp =
     (if \<not> measure_flag inp then ([], Break)
      else
        (case rht_read inp of
           Inl e \<Rightarrow> ([Printed e], Next mass_array)
         | Inr rht_readings \<Rightarrow>
            (case LoadCellArray_take_measurement mass_array of
               Inl e \<Rightarrow> ([RhtResult rht_readings], Raise e)
             | Inr (mass_readings, mass_array') \<Rightarrow>
                (let time_elapsed = stop_time inp - start_time inp
                 in ([RhtResult rht_readings, MassResult (stamp_time inp # mass_readings)]
                     @ (if time_elapsed < real_of_int interval
                        then [Slept (real_of_int interval - time_elapsed)] else [])
                     @ [ReadSignal],
                     Next mass_array')))))"

text \<open>
  The loop, on a script of inputs, one per pass. The loop has no bound of its own: when
  the script is used up the worker is still running (\<open>Running\<close>).
\<close>

datatype outcome = Stopped | Raised error | Running

fun run :: "int \<Rightarrow> LoadCellArray \<Rightarrow> cycle_input list \<Rightarrow> event list \<times> outcome" where
  "run interval mass_array [] = ([], Running)"
| "run interval mass_array (inp # rest) =
     (case cycle interval mass_array inp of
        (evs, Break) \<Rightarrow> (evs, Stopped)
      | (evs, Raise e) \<Rightarrow> (evs, Raised e)
      | (evs, Next mass_array') \<Rightarrow>
          (case run interval mass_array' rest of (evs', out) \<Rightarrow> (evs @ evs', out)))"

text \<open>What a list of events publishes and how long it sleeps, in order.\<close>

definition rht_results :: "event list \<Rightarrow> (real \<times> real) list list" where
  "rht_results evs = List.map_filter (\<lambda>ev. case ev of RhtResult r \<Rightarrow> Some r | _ \<Rightarrow> None) evs"

definition mass_results :: "event list \<Rightarrow> real list list" where
  "mass_results evs = List.map_filter (\<lambda>ev. case ev of MassResult m \<Rightarrow> Some m | _ \<Rightarrow> None) evs"

definition sleeps :: "event list \<Rightarrow> real list" where
  "sleeps evs = List.map_filter (\<lambda>ev. case ev of Slept d \<Rightarrow> Some d | _ \<Rightarrow> None) evs"

text \<open>
  A sensor with a given \<open>id\<close> on pins \<open>pin\<close> and \<open>pin + 1\<close>, and an array with
  sensors in the slots 1L, 1R and 3R, each with the same ten samples to come.
\<close>

definition demo_cell_at :: "string \<Rightarrow> int \<Rightarrow> int list \<Rightarrow> real option \<Rightarrow> real option \<Rightarrow> LoadCell" where
  "demo_cell_at ident pin samples mv bv =
     \<lparr>raw_stream = samples, data_pin = pin, clock_pin = pin + 1, gain = 128, channel = ''A'',
      id_str = ident, m_slope = mv, b_intercept = bv, offset = None\<rparr>"

definition demo_grid :: "int list \<Rightarrow> real option \<Rightarrow> LoadCell list list" where
  "demo_grid samples mv =
     [[demo_cell_at ''1L'' 5 samples (Some 2) (Some 1), demo_cell_at ''1R'' 7 samples mv (Some 0)],
      [],
      [demo_cell_at ''3R'' 9 samples (Some 1) None],
      []]"

text \<open>
  A driver for the concrete checks: it accepts gain 64 or 128 on channel A and gain 32 on
  channel B, and binds a device with no samples to come.
\<close>

definition demo_hx711 :: "int \<Rightarrow> int \<Rightarrow> int \<Rightarrow> string \<Rightarrow> error + int list" where
  "demo_hx711 dp cp g ch =
     (if (ch = ''A'' \<and> (g = 64 \<or> g = 128)) \<or> (ch = ''B'' \<and> g = 32) then Inr []
      else Inl ParameterValidationError)"

text \<open>\<open>str\<close> and \<open>float\<close> on the three floats that the concrete checks persist.\<close>

definition demo_str_float :: "real \<Rightarrow> string" where
  "demo_str_float x = (if x = 2 then ''2.0'' else if x = 1 then ''1.0'' else ''0.0'')"

definition demo_py_float :: "string \<Rightarrow> real option" where
  "demo_py_float s =
     (if s = ''2.0'' then Some 2 else if s = ''1.0'' then Some 1
      else if s = ''0.0'' then Some 0 else None)"

text \<open>An array with one sensor, and inputs of one pass, used in the concrete checks below.\<close>

definition demo_array :: "int list \<Rightarrow> real option \<Rightarrow> real option \<Rightarrow> LoadCellArray" where
  "demo_array samples mv bv = \<lparr>cells = [[demo_cell samples mv bv], [], [], []], num_cells = 1\<rparr>"

definition demo_input :: "error + (real \<times> real) list \<Rightarrow> real \<Rightarrow> cycle_input" where
  "demo_input r t = \<lparr>measure_flag = True, start_time = 100, rht_read = r, stamp_time = 101, stop_time = t\<rparr>"


section \<open>Properties of a single sensor\<close>

lemma quantile_nonempty: "a \<noteq> [] \<Longrightarrow> 0 \<le> q \<Longrightarrow> q \<le> 1 \<Longrightarrow> \<exists>v. quantile a q = Inr v"
  by (simp add: quantile_def Let_def)

lemma quantile_index_bound:
  assumes "0 \<le> q" and "q \<le> 1"
  shows "nat \<lfloor>real k * q\<rfloor> \<le> k"
proof -
  have "real k * q \<le> real k" using assms by (simp add: mult_left_le)
  then have "\<lfloor>real k * q\<rfloor> \<le> int k" by linarith
  then show ?thesis by linarith
qed

lemma quantile_const:
  assumes "a \<noteq> []" and "\<forall>r\<in>set a. r = v" and "0 \<le> q" and "q \<le> 1"
  shows "quantile a q = Inr (real_of_int v)"
proof -
  let ?n = "length (sort a)"
  let ?p = "nat \<lfloor>real (?n - 1) * q\<rfloor>"
  have s: "\<forall>r\<in>set (sort a). r = v" using assms(2) by simp
  have n: "0 < ?n" using assms(1) by simp
  have idx: "\<And>i. i < ?n \<Longrightarrow> sort a ! i = v"
    using s nth_mem by blast
  have p: "?p < ?n" using quantile_index_bound[OF assms(3,4), of "?n - 1"] n by linarith
  have nx: "min (?p + 1) (?n - 1) < ?n" using n by linarith
  have "sort a ! ?p = v" and "sort a ! min (?p + 1) (?n - 1) = v"
    using idx[OF p] idx[OF nx] by blast+
  then show ?thesis
    using assms(1,3,4) by (simp add: quantile_def Let_def)
qed

lemma take_measurement_keeps_coefficients:
  "take_measurement c = Inr (x, c') \<Longrightarrow> m_slope c' = m_slope c \<and> b_intercept c' = b_intercept c"
  by (auto simp: take_measurement_def get_raw_data_def split: sum.splits)

text \<open>
  Claim C1, as the code has it. \<open>get_mass\<close> takes the raw measurement first. When that
  fails, \<open>get_mass\<close> fails with the same exception, whatever the coefficients are. When it
  succeeds with the value \<open>raw\<close>, \<open>get_mass\<close> fails with \<open>TypeError\<close> if the slope or
  the intercept is unset, and returns exactly \<open>m * raw + b\<close> otherwise. With a coefficient
  unset it never returns a mass.
\<close>

theorem get_mass_calibration:
  "(take_measurement c = Inl e \<longrightarrow> get_mass c = Inl e) \<and>
   (take_measurement c = Inr (raw, c') \<longrightarrow>
      (m_slope c = None \<or> b_intercept c = None \<longrightarrow> get_mass c = Inl TypeError) \<and>
      (\<forall>mv bv. m_slope c = Some mv \<and> b_intercept c = Some bv \<longrightarrow>
          get_mass c = Inr (mv * raw + bv, c'))) \<and>
   (m_slope c = None \<or> b_intercept c = None \<longrightarrow> (\<exists>e'. get_mass c = Inl e'))"
proof (intro conjI impI allI)
  assume "take_measurement c = Inl e"
  then show "get_mass c = Inl e" by (simp add: get_mass_def)
next
  assume t: "take_measurement c = Inr (raw, c')" and u: "m_slope c = None \<or> b_intercept c = None"
  from take_measurement_keeps_coefficients[OF t] u t
  show "get_mass c = Inl TypeError"
    by (auto simp: get_mass_def split: option.splits)
next
  fix mv bv
  assume t: "take_measurement c = Inr (raw, c')"
    and s: "m_slope c = Some mv \<and> b_intercept c = Some bv"
  from take_measurement_keeps_coefficients[OF t] s t
  show "get_mass c = Inr (mv * raw + bv, c')"
    by (simp add: get_mass_def)
next
  assume u: "m_slope c = None \<or> b_intercept c = None"
  show "\<exists>e'. get_mass c = Inl e'"
  proof (cases "take_measurement c")
    case (Inl e0)
    then show ?thesis by (simp add: get_mass_def)
  next
    case (Inr p)
    obtain x c1 where p: "p = (x, c1)" by (cases p)
    from take_measurement_keeps_coefficients[of c x c1] Inr p u
    show ?thesis by (auto simp: get_mass_def split: option.splits)
  qed
qed

text \<open>
  Claim C3, as the code has it. For a batch of at least three raw samples both percentiles
  exist; the samples that \<open>take_measurement\<close> keeps are those strictly between them, so
  every sample below the 10th percentile or above the 90th is excluded, and so is every
  sample equal to one of the two. When a sample is kept the result is the arithmetic mean
  of the kept samples. (When none is kept the division by the number of kept samples
  raises.)
\<close>

theorem take_measurement_trimmed_mean:
  assumes "get_raw_data 10 c = (readings, c')" and "3 \<le> length readings"
  shows "\<exists>q10 q90 kept.
           quantile readings (1 / 10) = Inr q10 \<and> quantile readings (9 / 10) = Inr q90 \<and>
           kept = filter (\<lambda>r. q10 < real_of_int r \<and> real_of_int r < q90) readings \<and>
           (\<forall>r\<in>set readings. real_of_int r \<le> q10 \<or> q90 \<le> real_of_int r \<longrightarrow> r \<notin> set kept) \<and>
           take_measurement c =
             (if kept = [] then Inl ZeroDivisionError
              else Inr (real_of_int (sum_list kept) / real (length kept), c'))"
proof -
  have ne: "readings \<noteq> []" using assms(2) by auto
  obtain q10 where a: "quantile readings (1 / 10) = Inr q10"
    using quantile_nonempty[OF ne, of "1 / 10"] by auto
  obtain q90 where b: "quantile readings (9 / 10) = Inr q90"
    using quantile_nonempty[OF ne, of "9 / 10"] by auto
  let ?kept = "filter (\<lambda>r. q10 < real_of_int r \<and> real_of_int r < q90) readings"
  have excl: "\<forall>r\<in>set readings. real_of_int r \<le> q10 \<or> q90 \<le> real_of_int r \<longrightarrow> r \<notin> set ?kept"
    by auto
  have res: "take_measurement c =
        (if ?kept = [] then Inl ZeroDivisionError
         else Inr (real_of_int (sum_list ?kept) / real (length ?kept), c'))"
    using assms(1) a b by (simp add: take_measurement_def py_mean_def)
  from a b excl res show ?thesis by blast
qed

text \<open>A batch of ten samples from which six are kept; their mean is 11.5.\<close>

theorem take_measurement_trimmed_mean_witness:
  "get_raw_data 10 (demo_cell [10, 12, 11, 13, 12, 11, 10, 12, 13, 11] None None)
     = ([10, 12, 11, 13, 12, 11, 10, 12, 13, 11], demo_cell [] None None) \<and>
   (3::nat) \<le> length [10, 12, 11, 13, 12, 11, 10, 12, 13, 11 :: int] \<and>
   take_measurement (demo_cell [10, 12, 11, 13, 12, 11, 10, 12, 13, 11] None None)
     = Inr (23 / 2, demo_cell [] None None)"
proof -
  have g: "get_raw_data 10 (demo_cell [10, 12, 11, 13, 12, 11, 10, 12, 13, 11] None None)
     = ([10, 12, 11, 13, 12, 11, 10, 12, 13, 11], demo_cell [] None None)"
    by (simp add: get_raw_data_def demo_cell_def)
  have l: "(3::nat) \<le> length [10, 12, 11, 13, 12, 11, 10, 12, 13, 11 :: int]" by simp
  from take_measurement_trimmed_mean[OF g l]
  obtain q10 q90 kept where
    a: "quantile [10, 12, 11, 13, 12, 11, 10, 12, 13, 11] (1 / 10) = Inr q10" and
    b: "quantile [10, 12, 11, 13, 12, 11, 10, 12, 13, 11] (9 / 10) = Inr q90" and
    k: "kept = filter (\<lambda>r. q10 < real_of_int r \<and> real_of_int r < q90)
                 [10, 12, 11, 13, 12, 11, 10, 12, 13, 11]" and
    r: "take_measurement (demo_cell [10, 12, 11, 13, 12, 11, 10, 12, 13, 11] None None) =
             (if kept = [] then Inl ZeroDivisionError
              else Inr (real_of_int (sum_list kept) / real (length kept), demo_cell [] None None))"
    by blast
  from a have q10: "q10 = 10" by (simp add: quantile_def Let_def)
  from b have q90: "q90 = 13" by (simp add: quantile_def Let_def)
  from k q10 q90 have "kept = [12, 11, 12, 11, 12, 11]" by simp
  with r g l show ?thesis by simp
qed

text \<open>
  Claim C3 as stated fails on the batch 1, 1, 2, 5, 5, 5, 5, 5, 9, 9. Its 10th percentile
  is 1 and its 90th is 9, so no sample is strictly below the one or strictly above the
  other, and the mean of all ten is 4.7. The code also drops the samples equal to a
  percentile and returns 4.5, the mean of the six samples left.
\<close>

theorem take_measurement_boundary_counterexample:
  "take_measurement (demo_cell [1, 1, 2, 5, 5, 5, 5, 5, 9, 9] None None)
     = Inr (9 / 2, demo_cell [] None None) \<and>
   quantile [1, 1, 2, 5, 5, 5, 5, 5, 9, 9] (1 / 10) = Inr 1 \<and>
   quantile [1, 1, 2, 5, 5, 5, 5, 5, 9, 9] (9 / 10) = Inr 9 \<and>
   filter (\<lambda>r. \<not> (real_of_int r < 1 \<or> 9 < real_of_int r)) [1, 1, 2, 5, 5, 5, 5, 5, 9, 9]
     = [1, 1, 2, 5, 5, 5, 5, 5, 9, 9 :: int] \<and>
   py_mean [1, 1, 2, 5, 5, 5, 5, 5, 9, 9] = Inr (47 / 10)"
  by (simp add: take_measurement_def get_raw_data_def demo_cell_def quantile_def py_mean_def Let_def)

text \<open>
  Claim C4 does not hold of the code. Whenever trimming leaves no sample of a non-empty
  batch, \<open>take_measurement\<close> divides by zero and raises \<open>ZeroDivisionError\<close>, where
  the claim has it return the untrimmed mean; a batch of equal samples is one such batch.
\<close>

theorem take_measurement_empty_trim:
  assumes "get_raw_data 10 c = (readings, c')" and "readings \<noteq> []"
  shows "(\<forall>q10 q90. quantile readings (1 / 10) = Inr q10 \<and> quantile readings (9 / 10) = Inr q90 \<and>
            filter (\<lambda>r. q10 < real_of_int r \<and> real_of_int r < q90) readings = []
            \<longrightarrow> take_measurement c = Inl ZeroDivisionError) \<and>
         (\<forall>v. (\<forall>r\<in>set readings. r = v) \<longrightarrow> take_measurement c = Inl ZeroDivisionError)"
proof (intro conjI allI impI)
  fix q10 q90
  assume "quantile readings (1 / 10) = Inr q10 \<and> quantile readings (9 / 10) = Inr q90 \<and>
            filter (\<lambda>r. q10 < real_of_int r \<and> real_of_int r < q90) readings = []"
  then show "take_measurement c = Inl ZeroDivisionError"
    using assms(1) by (simp add: take_measurement_def py_mean_def)
next
  fix v
  assume eq: "\<forall>r\<in>set readings. r = v"
  have a: "quantile readings (1 / 10) = Inr (real_of_int v)"
    using quantile_const[OF assms(2) eq, of "1 / 10"] by simp
  have b: "quantile readings (9 / 10) = Inr (real_of_int v)"
    using quantile_const[OF assms(2) eq, of "9 / 10"] by simp
  have "filter (\<lambda>r. real_of_int v < real_of_int r \<and> real_of_int r < real_of_int v) readings = []"
    by (simp add: filter_empty_conv)
  with a b assms(1) show "take_measurement c = Inl ZeroDivisionError"
    by (simp add: take_measurement_def py_mean_def)
qed

text \<open>Ten equal samples.\<close>

theorem take_measurement_empty_trim_witness:
  "get_raw_data 10 (demo_cell [8, 8, 8, 8, 8, 8, 8, 8, 8, 8] None None)
     = ([8, 8, 8, 8, 8, 8, 8, 8, 8, 8], demo_cell [] None None) \<and>
   [8, 8, 8, 8, 8, 8, 8, 8, 8, 8 :: int] \<noteq> [] \<and>
   set [8, 8, 8, 8, 8, 8, 8, 8, 8, 8 :: int] = {8} \<and>
   take_measurement (demo_cell [8, 8, 8, 8, 8, 8, 8, 8, 8, 8] None None) = Inl ZeroDivisionError"
proof -
  have g: "get_raw_data 10 (demo_cell [8, 8, 8, 8, 8, 8, 8, 8, 8, 8] None None)
     = ([8, 8, 8, 8, 8, 8, 8, 8, 8, 8], demo_cell [] None None)"
    by (simp add: get_raw_data_def demo_cell_def)
  have n: "[8, 8, 8, 8, 8, 8, 8, 8, 8, 8 :: int] \<noteq> []" by simp
  have e: "\<forall>r\<in>set [8, 8, 8, 8, 8, 8, 8, 8, 8, 8 :: int]. r = 8" by simp
  from take_measurement_empty_trim[OF g n] e
  have "take_measurement (demo_cell [8, 8, 8, 8, 8, 8, 8, 8, 8, 8] None None) = Inl ZeroDivisionError"
    by blast
  moreover have "set [8, 8, 8, 8, 8, 8, 8, 8, 8, 8 :: int] = {8}" by simp
  ultimately show ?thesis using g n by blast
qed

text \<open>Ten samples that are all 7: the untrimmed mean is 7, and the call raises.\<close>

theorem take_measurement_equal_samples:
  "take_measurement (demo_cell [7, 7, 7, 7, 7, 7, 7, 7, 7, 7] None None) = Inl ZeroDivisionError \<and>
   py_mean [7, 7, 7, 7, 7, 7, 7, 7, 7, 7] = Inr 7"
  by (simp add: take_measurement_def get_raw_data_def demo_cell_def quantile_def py_mean_def Let_def)

text \<open>
  A calibrated sensor (slope 2, intercept 1) and a sensor without intercept, on the same
  batch with raw measurement 11.5.
\<close>

theorem get_mass_calibration_witness:
  "take_measurement (demo_cell [10, 12, 11, 13, 12, 11, 10, 12, 13, 11] (Some 2) (Some 1))
     = Inr (23 / 2, demo_cell [] (Some 2) (Some 1)) \<and>
   get_mass (demo_cell [10, 12, 11, 13, 12, 11, 10, 12, 13, 11] (Some 2) (Some 1))
     = Inr (24, demo_cell [] (Some 2) (Some 1)) \<and>
   take_measurement (demo_cell [10, 12, 11, 13, 12, 11, 10, 12, 13, 11] (Some 2) None)
     = Inr (23 / 2, demo_cell [] (Some 2) None) \<and>
   get_mass (demo_cell [10, 12, 11, 13, 12, 11, 10, 12, 13, 11] (Some 2) None) = Inl TypeError"
proof -
  have t: "\<And>mv bv. take_measurement (demo_cell [10, 12, 11, 13, 12, 11, 10, 12, 13, 11] mv bv)
     = Inr (23 / 2, demo_cell [] mv bv)"
    by (simp add: take_measurement_def get_raw_data_def demo_cell_def quantile_def py_mean_def Let_def)
  have m1: "m_slope (demo_cell [10, 12, 11, 13, 12, 11, 10, 12, 13, 11] (Some 2) (Some 1)) = Some 2
      \<and> b_intercept (demo_cell [10, 12, 11, 13, 12, 11, 10, 12, 13, 11] (Some 2) (Some 1)) = Some 1"
    by (simp add: demo_cell_def)
  have m2: "b_intercept (demo_cell [10, 12, 11, 13, 12, 11, 10, 12, 13, 11] (Some 2) None) = None"
    by (simp add: demo_cell_def)
  have "get_mass (demo_cell [10, 12, 11, 13, 12, 11, 10, 12, 13, 11] (Some 2) (Some 1))
     = Inr (2 * (23 / 2) + 1, demo_cell [] (Some 2) (Some 1))"
    using get_mass_calibration[of "demo_cell [10, 12, 11, 13, 12, 11, 10, 12, 13, 11] (Some 2) (Some 1)"
        ZeroDivisionError "23 / 2" "demo_cell [] (Some 2) (Some 1)"] t m1 by blast
  moreover have "get_mass (demo_cell [10, 12, 11, 13, 12, 11, 10, 12, 13, 11] (Some 2) None) = Inl TypeError"
    using get_mass_calibration[of "demo_cell [10, 12, 11, 13, 12, 11, 10, 12, 13, 11] (Some 2) None"
        ZeroDivisionError "23 / 2" "demo_cell [] (Some 2) None"] t m2 by blast
  ultimately show ?thesis using t by simp
qed

text \<open>
  Claim C1 as stated fails on a sensor without coefficients whose batch is trimmed to
  nothing: the exception is the \<open>ZeroDivisionError\<close> of the measurement, not the
  \<open>TypeError\<close> of the missing calibration.
\<close>

theorem get_mass_measurement_error_counterexample:
  "m_slope (demo_cell [3, 3, 3, 3, 3, 3, 3, 3, 3, 9] None None) = None \<and>
   b_intercept (demo_cell [3, 3, 3, 3, 3, 3, 3, 3, 3, 9] None None) = None \<and>
   get_mass (demo_cell [3, 3, 3, 3, 3, 3, 3, 3, 3, 9] None None) = Inl ZeroDivisionError \<and>
   get_mass (demo_cell [3, 3, 3, 3, 3, 3, 3, 3, 3, 9] None None) \<noteq> Inl TypeError"
  by (simp add: get_mass_def take_measurement_def get_raw_data_def demo_cell_def quantile_def
      py_mean_def Let_def)

lemma take_measurement_offset:
  "take_measurement (c\<lparr>offset := v\<rparr>)
     = map_sum id (\<lambda>(x, c'). (x, c'\<lparr>offset := v\<rparr>)) (take_measurement c)"
  by (simp add: take_measurement_def get_raw_data_def split: sum.splits)

lemma get_mass_offset:
  "get_mass (c\<lparr>offset := v\<rparr>) = map_sum id (\<lambda>(x, c'). (x, c'\<lparr>offset := v\<rparr>)) (get_mass c)"
  by (simp add: get_mass_def take_measurement_offset split: sum.splits option.splits)

lemma tare_cell:
  "tare n c = Inr c1 \<Longrightarrow> \<exists>v. c1 = (c\<lparr>raw_stream := raw_stream c1\<rparr>)\<lparr>offset := Some v\<rparr>"
  by (auto simp: tare_def get_raw_data_def split: sum.splits)

text \<open>
  Claim C10. The offset is never read on the measurement path: giving the \<open>offset\<close>
  attribute any value changes neither the result of \<open>take_measurement\<close> nor that of
  \<open>get_mass\<close>; and a sensor that has just been tared measures what the same sensor,
  never tared, measures on the samples that follow.
\<close>

theorem offset_not_read:
  "map_sum id fst (take_measurement (c\<lparr>offset := v\<rparr>)) = map_sum id fst (take_measurement c) \<and>
   map_sum id fst (get_mass (c\<lparr>offset := v\<rparr>)) = map_sum id fst (get_mass c) \<and>
   (tare n c = Inr c1 \<longrightarrow>
      map_sum id fst (take_measurement c1)
        = map_sum id fst (take_measurement (c\<lparr>raw_stream := raw_stream c1\<rparr>)) \<and>
      map_sum id fst (get_mass c1)
        = map_sum id fst (get_mass (c\<lparr>raw_stream := raw_stream c1\<rparr>)))"
proof -
  have a: "map_sum id fst (take_measurement (d\<lparr>offset := w\<rparr>)) = map_sum id fst (take_measurement d)"
    for d w by (cases "take_measurement d") (auto simp: take_measurement_offset)
  have b: "map_sum id fst (get_mass (d\<lparr>offset := w\<rparr>)) = map_sum id fst (get_mass d)"
    for d w by (cases "get_mass d") (auto simp: get_mass_offset)
  have "tare n c = Inr c1 \<longrightarrow>
      map_sum id fst (take_measurement c1)
        = map_sum id fst (take_measurement (c\<lparr>raw_stream := raw_stream c1\<rparr>)) \<and>
      map_sum id fst (get_mass c1)
        = map_sum id fst (get_mass (c\<lparr>raw_stream := raw_stream c1\<rparr>))"
  proof
    assume "tare n c = Inr c1"
    then obtain w where "c1 = (c\<lparr>raw_stream := raw_stream c1\<rparr>)\<lparr>offset := Some w\<rparr>"
      using tare_cell by blast
    then show "map_sum id fst (take_measurement c1)
        = map_sum id fst (take_measurement (c\<lparr>raw_stream := raw_stream c1\<rparr>)) \<and>
      map_sum id fst (get_mass c1)
        = map_sum id fst (get_mass (c\<lparr>raw_stream := raw_stream c1\<rparr>))"
      using a[where d = "c\<lparr>raw_stream := raw_stream c1\<rparr>" and w = "Some w"]
        b[where d = "c\<lparr>raw_stream := raw_stream c1\<rparr>" and w = "Some w"]
      by simp
  qed
  with a b show ?thesis by blast
qed

text \<open>
  A tare over the two samples 100 and 200 stores the offset 150; the mass measured on the
  next ten samples is 24 with and without it.
\<close>

theorem offset_not_read_witness:
  "tare 2 (demo_cell [100, 200, 10, 12, 11, 13, 12, 11, 10, 12, 13, 11] (Some 2) (Some 1))
     = Inr ((demo_cell [10, 12, 11, 13, 12, 11, 10, 12, 13, 11] (Some 2) (Some 1))\<lparr>offset := Some 150\<rparr>) \<and>
   map_sum id fst (get_mass ((demo_cell [10, 12, 11, 13, 12, 11, 10, 12, 13, 11] (Some 2) (Some 1))\<lparr>offset := Some 150\<rparr>))
     = Inr 24 \<and>
   map_sum id fst (get_mass (demo_cell [10, 12, 11, 13, 12, 11, 10, 12, 13, 11] (Some 2) (Some 1)))
     = Inr 24"
proof -
  let ?d = "demo_cell [100, 200, 10, 12, 11, 13, 12, 11, 10, 12, 13, 11] (Some 2) (Some 1)"
  let ?c = "demo_cell [10, 12, 11, 13, 12, 11, 10, 12, 13, 11] (Some 2) (Some 1)"
  have t: "tare 2 ?d = Inr (?c\<lparr>offset := Some 150\<rparr>)"
    by (simp add: tare_def get_raw_data_def demo_cell_def py_mean_def)
  have r: "?d\<lparr>raw_stream := raw_stream (?c\<lparr>offset := Some 150\<rparr>)\<rparr> = ?c"
    by (simp add: demo_cell_def)
  have g: "map_sum id fst (get_mass ?c) = Inr 24"
    by (simp add: get_mass_def take_measurement_def get_raw_data_def demo_cell_def quantile_def
        py_mean_def Let_def)
  from offset_not_read[where c = ?d and v = "Some 0" and n = 2 and ?c1.0 = "?c\<lparr>offset := Some 150\<rparr>"] t r
  have "map_sum id fst (get_mass (?c\<lparr>offset := Some 150\<rparr>)) = map_sum id fst (get_mass ?c)"
    by simp
  with t g show ?thesis by simp
qed


section \<open>Properties of the coordinator\<close>

lemma cycle_cases:
  "cycle interval arr inp =
     (if \<not> measure_flag inp then ([], Break)
      else case rht_read inp of
        Inl e \<Rightarrow> ([Printed e], Next arr)
      | Inr r \<Rightarrow>
         (case LoadCellArray_take_measurement arr of
            Inl e \<Rightarrow> ([RhtResult r], Raise e)
          | Inr (data, arr') \<Rightarrow>
             ([RhtResult r, MassResult (stamp_time inp # data)]
              @ (if stop_time inp - start_time inp < real_of_int interval
                 then [Slept (real_of_int interval - (stop_time inp - start_time inp))] else [])
              @ [ReadSignal], Next arr')))"
  by (simp add: cycle_def Let_def split: sum.splits prod.splits)




text \<open>
  Claim C8. In a pass that reaches the pacing step (both reads succeed), the worker sleeps
  for exactly the interval minus the elapsed time when the elapsed time is less than the
  interval; when the pass overruns it does not sleep at all and the loop goes on with the
  next pass at once; a sleep is always for a positive duration.
\<close>

theorem cycle_pacing:
  assumes "measure_flag inp" and "rht_read inp = Inr r"
    and "LoadCellArray_take_measurement arr = Inr (data, arr')"
  shows "(stop_time inp - start_time inp < real_of_int interval \<longrightarrow>
            sleeps (fst (cycle interval arr inp))
              = [real_of_int interval - (stop_time inp - start_time inp)]) \<and>
         (\<not> stop_time inp - start_time inp < real_of_int interval \<longrightarrow>
            sleeps (fst (cycle interval arr inp)) = [] \<and>
            run interval arr (inp # rest)
              = ([RhtResult r, MassResult (stamp_time inp # data), ReadSignal]
                   @ fst (run interval arr' rest), snd (run interval arr' rest))) \<and>
         (\<forall>d\<in>set (sleeps (fst (cycle interval arr inp))). 0 < d) \<and>
         snd (cycle interval arr inp) = Next arr'"
  using assms
  by (simp add: cycle_cases sleeps_def split: prod.splits)

text \<open>No pass of any kind sleeps for a duration that is not positive.\<close>

lemma sleeps_positive:
  "\<forall>d\<in>set (sleeps (fst (cycle interval arr inp))). 0 < d"
  by (simp add: cycle_cases sleeps_def split: sum.splits prod.splits)

text \<open>
  Claim C9, as the code has it. When the environmental read raises, the exception is
  printed and the loop goes back to its top at once: the pass does not sleep, publishes no
  environment and no mass result, and leaves the mass array unread; the worker goes on
  with the rest of its run, starting with a new read of the flag.
\<close>

theorem cycle_rht_failure:
  assumes "measure_flag inp" and "rht_read inp = Inl e"
  shows "cycle interval arr inp = ([Printed e], Next arr) \<and>
         sleeps (fst (cycle interval arr inp)) = [] \<and>
         mass_results (fst (cycle interval arr inp)) = [] \<and>
         rht_results (fst (cycle interval arr inp)) = [] \<and>
         run interval arr (inp # rest)
           = (Printed e # fst (run interval arr rest), snd (run interval arr rest))"
  using assms
  by (simp add: cycle_cases sleeps_def mass_results_def rht_results_def
      split: prod.splits)

text \<open>The one-sensor array, calibrated with slope 2 and intercept 1, measures 24.\<close>

lemma demo_array_measure:
  "LoadCellArray_take_measurement (demo_array [10, 12, 11, 13, 12, 11, 10, 12, 13, 11] (Some 2) (Some 1))
     = Inr ([24], demo_array [] (Some 2) (Some 1))"
  by (simp add: demo_array_def LoadCellArray_take_measurement_def get_mass_def take_measurement_def
      get_raw_data_def demo_cell_def quantile_def py_mean_def Let_def)


text \<open>
  Interval 10: a pass that took 3 seconds sleeps 7; a pass that took 15 does not sleep.
\<close>

theorem cycle_pacing_witness:
  "sleeps (fst (cycle 10 (demo_array [10, 12, 11, 13, 12, 11, 10, 12, 13, 11] (Some 2) (Some 1))
       (demo_input (Inr [(20, 1 / 2)]) 103))) = [7] \<and>
   sleeps (fst (cycle 10 (demo_array [10, 12, 11, 13, 12, 11, 10, 12, 13, 11] (Some 2) (Some 1))
       (demo_input (Inr [(20, 1 / 2)]) 115))) = [] \<and>
   run 10 (demo_array [10, 12, 11, 13, 12, 11, 10, 12, 13, 11] (Some 2) (Some 1))
       [demo_input (Inr [(20, 1 / 2)]) 115]
     = ([RhtResult [(20, 1 / 2)], MassResult [101, 24], ReadSignal], Running)"
proof -
  let ?arr = "demo_array [10, 12, 11, 13, 12, 11, 10, 12, 13, 11] (Some 2) (Some 1)"
  have f: "measure_flag (demo_input (Inr [(20, 1 / 2)]) t)" for t
    by (simp add: demo_input_def)
  have r: "rht_read (demo_input (Inr [(20, 1 / 2)]) t) = Inr [(20, 1 / 2)]" for t
    by (simp add: demo_input_def)
  have a: "sleeps (fst (cycle 10 ?arr (demo_input (Inr [(20, 1 / 2)]) 103))) = [7]"
    using cycle_pacing[OF f r demo_array_measure, of 103 10 "[]"] by (simp add: demo_input_def)
  have b: "sleeps (fst (cycle 10 ?arr (demo_input (Inr [(20, 1 / 2)]) 115))) = [] \<and>
      run 10 ?arr [demo_input (Inr [(20, 1 / 2)]) 115]
        = ([RhtResult [(20, 1 / 2)], MassResult [101, 24], ReadSignal], Running)"
    using cycle_pacing[OF f r demo_array_measure, of 115 10 "[]"] by (simp add: demo_input_def)
  from a b show ?thesis by blast
qed

text \<open>A failed environmental read, followed by a pass that succeeds.\<close>

theorem cycle_rht_failure_witness:
  "measure_flag (demo_input (Inl OSError) 103) \<and>
   rht_read (demo_input (Inl OSError) 103) = Inl OSError \<and>
   run 10 (demo_array [10, 12, 11, 13, 12, 11, 10, 12, 13, 11] (Some 2) (Some 1))
       [demo_input (Inl OSError) 103, demo_input (Inr [(20, 1 / 2)]) 103]
     = ([Printed OSError, RhtResult [(20, 1 / 2)], MassResult [101, 24], Slept 7, ReadSignal], Running)"
proof -
  let ?arr = "demo_array [10, 12, 11, 13, 12, 11, 10, 12, 13, 11] (Some 2) (Some 1)"
  have f: "measure_flag (demo_input (Inl OSError) 103)" by (simp add: demo_input_def)
  have r: "rht_read (demo_input (Inl OSError) 103) = Inl OSError" by (simp add: demo_input_def)
  have n: "run 10 ?arr [demo_input (Inr [(20, 1 / 2)]) 103]
      = ([RhtResult [(20, 1 / 2)], MassResult [101, 24], Slept 7, ReadSignal], Running)"
    by (simp add: cycle_cases demo_array_measure demo_input_def)
  from cycle_rht_failure[OF f r, of 10 ?arr "[demo_input (Inr [(20, 1 / 2)]) 103]"] n f r
  show ?thesis by simp
qed

text \<open>
  Claim C9 as stated fails in its delay: the pass with a failed environmental read
  consists of the print alone, with no sleep before the loop starts over.
\<close>

theorem cycle_no_fallback_delay_counterexample:
  "cycle 10 (demo_array [10, 12, 11, 13, 12, 11, 10, 12, 13, 11] (Some 2) (Some 1))
       (demo_input (Inl OSError) 100)
     = ([Printed OSError], Next (demo_array [10, 12, 11, 13, 12, 11, 10, 12, 13, 11] (Some 2) (Some 1))) \<and>
   sleeps [Printed OSError] = []"
  by (simp add: cycle_cases sleeps_def demo_input_def)


section \<open>Properties of the sensor array\<close>

lemma digit_char_eval:
  "digit_char 0 = CHR ''0''" "digit_char 1 = CHR ''1''" "digit_char 2 = CHR ''2''"
  "digit_char 3 = CHR ''3''" "digit_char 4 = CHR ''4''" "digit_char 5 = CHR ''5''"
  "digit_char 6 = CHR ''6''" "digit_char 7 = CHR ''7''" "digit_char 8 = CHR ''8''"
  "digit_char 9 = CHR ''9''" "digit_char (Suc 0) = CHR ''1''"
  by code_simp+

lemma str_int_chamber:
  "str_int 1 = ''1''" "str_int 2 = ''2''" "str_int 3 = ''3''" "str_int 4 = ''4''"
  by (simp_all add: str_int_def show_nat.simps digit_char_eval)

lemma py_int_digit:
  "py_int ''1'' = Inr 1" "py_int ''2'' = Inr 2" "py_int ''3'' = Inr 3" "py_int ''4'' = Inr 4"
  by (simp_all add: py_int_def py_strip_def is_space_def digits_def is_digit_def digit_val_def)

lemma LoadCell_init_id:
  assumes "LoadCell_init hx711 dp cp g ch chamber side mv bv = Inr cell"
  shows "chamber \<in> {1, 2, 3, 4} \<and> py_upper side \<in> {''L'', ''R''} \<and>
         id_str cell = str_int chamber @ py_upper side \<and>
         data_pin cell = dp \<and> clock_pin cell = cp \<and> gain cell = g \<and> channel cell = ch \<and>
         m_slope cell = mv \<and> b_intercept cell = bv \<and> hx711 dp cp g ch = Inr (raw_stream cell) \<and>
         offset cell = None"
  using assms by (auto simp: LoadCell_init_def raising_def split: if_splits sum.splits)

lemma place_cell_valid:
  assumes "length grid = 4" and "chamber \<in> {1, 2, 3, 4}" and "sd \<in> {''L'', ''R''}"
    and "id_str cell = str_int chamber @ sd"
  shows "place_cell grid cell
           = Inr (grid[nat (chamber - 1) := py_insert (if sd = ''L'' then 0 else 1) cell
                                               (grid ! nat (chamber - 1))])"
  using assms
  by (auto simp: place_cell_def raising_def py_index_def py_position_def str_int_chamber py_int_digit)

text \<open>
  Claim C6, as the code has it. \<open>LoadCell.__init__\<close> calls the driver's constructor
  first: when the driver refuses the binding, its exception is the result. When the driver
  accepts it, a chamber outside 1..4, or a side whose upper-case form is neither \<open>L\<close>
  nor \<open>R\<close>, raises \<open>ValueError\<close>, so that no such sensor is constructed. A sensor that
  has been constructed is inserted into any array of four chambers without failure,
  whatever its chamber list already holds: the list grows by one sensor, also when the
  slot is occupied.
\<close>

theorem insertion_topology:
  "(hx711 dp cp g ch = Inl e \<longrightarrow>
      LoadCell_init hx711 dp cp g ch chamber side mv bv = Inl e) \<and>
   (hx711 dp cp g ch = Inr device \<and> (chamber \<notin> {1, 2, 3, 4} \<or> py_upper side \<notin> {''L'', ''R''}) \<longrightarrow>
      LoadCell_init hx711 dp cp g ch chamber side mv bv = Inl ValueError) \<and>
   (LoadCell_init hx711 dp cp g ch chamber side mv bv = Inr cell \<and> length grid = 4 \<longrightarrow>
      place_cell grid cell
        = Inr (grid[nat (chamber - 1) := py_insert (if py_upper side = ''L'' then 0 else 1) cell
                                            (grid ! nat (chamber - 1))]) \<and>
      nat (chamber - 1) < 4 \<and>
      length (py_insert (if py_upper side = ''L'' then 0 else 1) cell (grid ! nat (chamber - 1)))
        = length (grid ! nat (chamber - 1)) + 1)"
proof (intro conjI impI)
  assume "hx711 dp cp g ch = Inl e"
  then show "LoadCell_init hx711 dp cp g ch chamber side mv bv = Inl e"
    by (simp add: LoadCell_init_def raising_def)
next
  assume "hx711 dp cp g ch = Inr device \<and> (chamber \<notin> {1, 2, 3, 4} \<or> py_upper side \<notin> {''L'', ''R''})"
  then show "LoadCell_init hx711 dp cp g ch chamber side mv bv = Inl ValueError"
    by (auto simp: LoadCell_init_def raising_def)
next
  assume a: "LoadCell_init hx711 dp cp g ch chamber side mv bv = Inr cell \<and> length grid = 4"
  from LoadCell_init_id[of hx711 dp cp g ch chamber side mv bv cell] a
  have c: "chamber \<in> {1, 2, 3, 4}" and s: "py_upper side \<in> {''L'', ''R''}"
    and i: "id_str cell = str_int chamber @ py_upper side" by blast+
  from a have l: "length grid = 4" by simp
  show "place_cell grid cell
        = Inr (grid[nat (chamber - 1) := py_insert (if py_upper side = ''L'' then 0 else 1) cell
                                            (grid ! nat (chamber - 1))])"
    using place_cell_valid[OF l c s i] .
  show "nat (chamber - 1) < 4" using c by auto
  show "length (py_insert (if py_upper side = ''L'' then 0 else 1) cell (grid ! nat (chamber - 1)))
        = length (grid ! nat (chamber - 1)) + 1"
    by (simp add: py_insert_def)
qed

text \<open>
  Gain 32 on channel A is refused by the driver before chamber 5 is looked at; with gain
  128 chamber 5 is refused with \<open>ValueError\<close>; side \<open>l\<close> gives the sensor \<open>1L\<close>,
  which is inserted in front of the sensor that chamber 1 already holds.
\<close>

theorem insertion_topology_witness:
  "LoadCell_init demo_hx711 5 6 32 ''A'' 5 ''L'' None None = Inl ParameterValidationError \<and>
   LoadCell_init demo_hx711 5 6 128 ''A'' 5 ''L'' None None = Inl ValueError \<and>
   LoadCell_init demo_hx711 5 6 128 ''A'' 1 ''l'' None None = Inr (demo_cell [] None None) \<and>
   place_cell [[demo_cell [1] None None], [], [], []] (demo_cell [] None None)
     = Inr [[demo_cell [] None None, demo_cell [1] None None], [], [], []]"
proof -
  have u: "py_upper ''l'' = ''L''" by code_simp
  have d0: "demo_hx711 5 6 32 ''A'' = Inl ParameterValidationError" by (simp add: demo_hx711_def)
  have d1: "demo_hx711 5 6 128 ''A'' = Inr []" by (simp add: demo_hx711_def)
  have z: "LoadCell_init demo_hx711 5 6 32 ''A'' 5 ''L'' None None = Inl ParameterValidationError"
    using insertion_topology[where ?hx711.0 = demo_hx711 and dp = 5 and cp = 6 and g = 32
        and ch = "''A''" and e = ParameterValidationError and chamber = 5 and side = "''L''"
        and mv = None and bv = None] d0
    by simp
  have a: "LoadCell_init demo_hx711 5 6 128 ''A'' 5 ''L'' None None = Inl ValueError"
    using insertion_topology[where ?hx711.0 = demo_hx711 and dp = 5 and cp = 6 and g = 128
        and ch = "''A''" and device = "[]" and chamber = 5 and side = "''L''"
        and mv = None and bv = None] d1
    by simp
  have b: "LoadCell_init demo_hx711 5 6 128 ''A'' 1 ''l'' None None = Inr (demo_cell [] None None)"
    by (simp add: LoadCell_init_def raising_def d1 u str_int_chamber demo_cell_def)
  have "place_cell [[demo_cell [1] None None], [], [], []] (demo_cell [] None None)
     = Inr [[demo_cell [] None None, demo_cell [1] None None], [], [], []]"
    using insertion_topology[where ?hx711.0 = demo_hx711 and dp = 5 and cp = 6 and g = 128
        and ch = "''A''" and chamber = 1 and side = "''l''" and mv = None and bv = None
        and cell = "demo_cell [] None None"
        and grid = "[[demo_cell [1] None None], [], [], []]"] b
    by (simp add: u py_insert_def)
  with z a b show ?thesis by blast
qed

text \<open>
  Claim C6 as stated fails in its second part: an array built from two sensors with the
  same \<open>id\<close> \<open>1L\<close> is built without error and holds both in chamber 1.
\<close>

theorem slot_occupied_counterexample:
  "LoadCellArray_init [demo_cell [1] None None, demo_cell [2] None None]
     = Inr \<lparr>cells = [[demo_cell [2] None None, demo_cell [1] None None], [], [], []], num_cells = 2\<rparr> \<and>
   id_str (demo_cell [1] None None) = ''1L'' \<and> id_str (demo_cell [2] None None) = ''1L''"
  by (simp add: LoadCellArray_init_def place_cell_def raising_def py_index_def py_position_def
      py_int_digit py_insert_def demo_cell_def)



















lemma LoadCell_init_slot_id:
  assumes "LoadCell_init hx711 dp cp g ch chamber side mv bv = Inr cell"
  shows "id_str cell \<in> set slot_ids"
  using LoadCell_init_id[OF assms] by (auto simp: slot_ids_def str_int_chamber)






text \<open>
  Without the condition on the slots the order within a chamber can be any: of two
  sensors with the id \<open>1L\<close> and one with \<open>1R\<close>, the right one ends up between the
  left ones.
\<close>

lemma two_sensors_in_one_slot_order:
  "LoadCellArray_init
       [demo_cell_at ''1L'' 5 [] None None, demo_cell_at ''1L'' 7 [] None None,
        demo_cell_at ''1R'' 9 [] None None]
     = Inr \<lparr>cells = [[demo_cell_at ''1L'' 7 [] None None, demo_cell_at ''1R'' 9 [] None None,
                       demo_cell_at ''1L'' 5 [] None None], [], [], []], num_cells = 3\<rparr>"
  by (simp add: LoadCellArray_init_def place_cell_def raising_def py_index_def py_position_def
      py_int_digit py_insert_def demo_cell_at_def)



section \<open>Properties of persistence\<close>

text \<open>Splitting at a separator, and \<open>int(str(n)) = n\<close>.\<close>

lemma py_split_no_sep: "sep \<notin> set s \<Longrightarrow> py_split sep s = [s]"
  by (induction s) auto

lemma py_split_append:
  "sep \<notin> set s \<Longrightarrow> py_split sep (s @ sep # rest) = s # py_split sep rest"
  by (induction s) auto

lemma of_char_digit_char: "d < 10 \<Longrightarrow> (of_char (digit_char d) :: nat) = 48 + d"
  by (simp add: digit_char_def)

lemma is_digit_digit_char: "d < 10 \<Longrightarrow> is_digit (digit_char d)"
  by (simp add: is_digit_def of_char_digit_char)

lemma digit_val_digit_char: "d < 10 \<Longrightarrow> digit_val (digit_char d) = d"
  by (simp add: digit_val_def of_char_digit_char)

lemma show_nat_digits: "\<forall>c\<in>set (show_nat n). is_digit c"
proof (induction n rule: show_nat.induct)
  case (1 n)
  show ?case
  proof (cases "n < 10")
    case True
    then show ?thesis by (simp add: show_nat.simps[of n] is_digit_digit_char)
  next
    case False
    with 1 show ?thesis by (simp add: show_nat.simps[of n] is_digit_digit_char)
  qed
qed

lemma show_nat_nonempty: "show_nat n \<noteq> []"
  by (simp add: show_nat.simps[of n])

lemma digits_from_foldl:
  "\<forall>c\<in>set ds. is_digit c \<Longrightarrow>
     digits_from acc ds = Some (foldl (\<lambda>a c. 10 * a + digit_val c) acc ds)"
  by (induction ds arbitrary: acc) auto

lemma foldl_show_nat: "foldl (\<lambda>a c. 10 * a + digit_val c) 0 (show_nat n) = n"
proof (induction n rule: show_nat.induct)
  case (1 n)
  show ?case
  proof (cases "n < 10")
    case True
    then show ?thesis by (simp add: show_nat.simps[of n] digit_val_digit_char)
  next
    case False
    with 1 show ?thesis by (simp add: show_nat.simps[of n] digit_val_digit_char)
  qed
qed

lemma digits_show_nat: "digits (show_nat n) = Some n"
proof -
  obtain c cs where s: "show_nat n = c # cs"
    using show_nat_nonempty[of n] by (cases "show_nat n") auto
  have d: "\<forall>x\<in>set (c # cs). is_digit x" using show_nat_digits[of n] s by simp
  then have "digits (c # cs) = digits_from 0 (c # cs)" by (simp add: digits_def)
  also have "\<dots> = Some (foldl (\<lambda>a c. 10 * a + digit_val c) 0 (c # cs))"
    using digits_from_foldl[OF d] .
  also have "\<dots> = Some n" using foldl_show_nat[of n] s by simp
  finally show ?thesis using s by simp
qed

lemma is_digit_facts:
  "is_digit c \<Longrightarrow> \<not> is_space c \<and> c \<noteq> CHR ''-'' \<and> c \<noteq> CHR ''+'' \<and> c \<noteq> CHR '',''
     \<and> c \<noteq> CHR ''|'' \<and> c \<noteq> CHR ''N''"
  by (auto simp: is_digit_def is_space_def)

lemma py_strip_id: "\<forall>c\<in>set s. \<not> is_space c \<Longrightarrow> py_strip s = s"
proof -
  assume a: "\<forall>c\<in>set s. \<not> is_space c"
  have d: "dropWhile is_space t = t" if "\<forall>c\<in>set t. \<not> is_space c" for t
    using that by (cases t) auto
  from a have "\<forall>c\<in>set (rev s). \<not> is_space c" by simp
  with a d[of s] d[of "rev s"] show ?thesis by (simp add: py_strip_def)
qed

lemma str_int_chars: "\<forall>c\<in>set (str_int i). is_digit c \<or> c = CHR ''-''"
  using show_nat_digits by (auto simp: str_int_def)

lemma str_int_no_delimiter: "no_delimiter (str_int i)"
  using str_int_chars[of i] is_digit_facts by (auto simp: no_delimiter_def)

lemma str_int_not_space: "\<forall>c\<in>set (str_int i). \<not> is_space c"
proof
  fix c assume "c \<in> set (str_int i)"
  then have "is_digit c \<or> c = CHR ''-''" using str_int_chars by blast
  then show "\<not> is_space c"
  proof
    assume "is_digit c" then show ?thesis using is_digit_facts by blast
  next
    assume "c = CHR ''-''" then show ?thesis by (simp add: is_space_def)
  qed
qed

lemma py_int_str_int_neg:
  assumes "i < 0"
  shows "py_int (str_int i) = Inr i"
proof -
  have st: "py_strip (str_int i) = str_int i" using py_strip_id[OF str_int_not_space] .
  from assms have e: "str_int i = CHR ''-'' # show_nat (nat (- i))" by (simp add: str_int_def)
  have st': "py_strip (CHR ''-'' # show_nat (nat (- i))) = CHR ''-'' # show_nat (nat (- i))"
    using st e by simp
  show ?thesis
    unfolding e py_int_def st' using assms by (simp add: digits_show_nat)
qed

lemma py_int_str_int: "py_int (str_int i) = Inr i"
proof (cases "i < 0")
  case True
  then show ?thesis by (rule py_int_str_int_neg)
next
  case False
  have st: "py_strip (str_int i) = str_int i" using py_strip_id[OF str_int_not_space] .
  obtain c cs where s: "show_nat (nat i) = c # cs"
    using show_nat_nonempty[of "nat i"] by (cases "show_nat (nat i)") auto
  have "is_digit c" using show_nat_digits[of "nat i"] s by simp
  then have n: "c \<noteq> CHR ''-''" "c \<noteq> CHR ''+''" using is_digit_facts by blast+
  have dg: "digits (c # cs) = Some (nat i)" using digits_show_nat[of "nat i"] s by simp
  have e: "str_int i = c # cs" using False s by (simp add: str_int_def)
  have st': "py_strip (c # cs) = c # cs" using st e by simp
  show ?thesis
    unfolding e py_int_def st' using n dg False by simp
qed

text \<open>The text of one record and its fields.\<close>

lemma str_coefficient_ok:
  assumes "coefficient_ok sf pf x"
  shows "no_delimiter (str_coefficient sf x)" and "parse_coefficient pf (str_coefficient sf x) = Inr x"
  using assms
  by (auto simp: coefficient_ok_def str_coefficient_def parse_coefficient_def no_delimiter_def
      split: option.splits)

lemma record_text_eq:
  "record_text sf c =
     str_int (data_pin c) @ CHR '','' # str_int (clock_pin c) @ CHR '','' # str_int (gain c)
     @ CHR '','' # channel c @ CHR '','' # id_str c @ CHR '','' # str_coefficient sf (m_slope c)
     @ CHR '','' # str_coefficient sf (b_intercept c)"
  by (simp add: record_text_def write_str_def butlast_append)

lemma write_str_record_text: "write_str sf c = record_text sf c @ [CHR ''|'']"
  by (simp add: record_text_eq write_str_def)

lemma record_text_no_bar:
  assumes "persistable sf pf c" and "no_delimiter (id_str c)"
  shows "CHR ''|'' \<notin> set (record_text sf c)"
proof -
  from assms(1) have "no_delimiter (channel c)"
    "no_delimiter (str_coefficient sf (m_slope c))" "no_delimiter (str_coefficient sf (b_intercept c))"
    using str_coefficient_ok(1) by (auto simp: persistable_def)
  with assms(2) str_int_no_delimiter[of "data_pin c"] str_int_no_delimiter[of "clock_pin c"]
    str_int_no_delimiter[of "gain c"]
  show ?thesis by (simp add: record_text_eq no_delimiter_def)
qed

lemma record_text_fields:
  assumes "persistable sf pf c" and "no_delimiter (id_str c)"
  shows "py_split CHR '','' (record_text sf c) =
     [str_int (data_pin c), str_int (clock_pin c), str_int (gain c), channel c, id_str c,
      str_coefficient sf (m_slope c), str_coefficient sf (b_intercept c)]"
proof -
  from assms(1) have "CHR '','' \<notin> set (channel c)"
    "CHR '','' \<notin> set (str_coefficient sf (m_slope c))"
    "CHR '','' \<notin> set (str_coefficient sf (b_intercept c))"
    using str_coefficient_ok(1) by (auto simp: persistable_def no_delimiter_def)
  moreover have "CHR '','' \<notin> set (str_int (data_pin c))" "CHR '','' \<notin> set (str_int (clock_pin c))"
    "CHR '','' \<notin> set (str_int (gain c))"
    using str_int_no_delimiter by (simp_all add: no_delimiter_def)
  moreover have "CHR '','' \<notin> set (id_str c)" using assms(2) by (simp add: no_delimiter_def)
  ultimately show ?thesis
    by (simp add: record_text_eq py_split_append py_split_no_sep)
qed

lemma split_records:
  assumes "\<forall>c\<in>set cs. CHR ''|'' \<notin> set (record_text sf c)"
  shows "py_split CHR ''|'' (concat (map (write_str sf) cs)) = map (record_text sf) cs @ [[]]"
  using assms
  by (induction cs) (simp_all add: write_str_record_text py_split_append)

text \<open>Loading the record of one sensor, and the records of one chamber.\<close>

lemma py_upper_side: "py_upper ''L'' = ''L''" "py_upper ''R'' = ''R''"
  by (simp_all add: py_upper_def)

lemma reloaded_eq:
  "hw (data_pin c) (clock_pin c) (gain c) (channel c) = Inr device \<Longrightarrow>
   \<lparr>raw_stream = device, data_pin = data_pin c, clock_pin = clock_pin c,
     gain = gain c, channel = channel c, id_str = id_str c, m_slope = m_slope c,
     b_intercept = b_intercept c, offset = None\<rparr> = reloaded hw c"
  by (cases c) (simp add: reloaded_def)

lemma py_index_nth: "0 \<le> i \<Longrightarrow> i < int (length xs) \<Longrightarrow> py_index xs i = Inr (xs ! nat i)"
  by (simp add: py_index_def py_position_def)

lemma load_record_cell:
  assumes p: "persistable sf pf c" and i: "id_str c = str_int chamber @ [sd]"
    and ch: "chamber \<in> {1, 2, 3, 4}" and sd: "sd \<in> {CHR ''L'', CHR ''R''}"
    and len: "length grid = 4" and con: "constructible hw c"
  shows "load_record hw pf grid (record_text sf c)
           = Inr (grid[nat (chamber - 1) := py_insert (if sd = CHR ''L'' then 0 else 1)
                                              (reloaded hw c) (grid ! nat (chamber - 1))])"
proof -
  have nd: "no_delimiter (id_str c)"
    using i ch sd by (auto simp: no_delimiter_def str_int_chamber)
  have f: "py_split CHR '','' (record_text sf c) =
     [str_int (data_pin c), str_int (clock_pin c), str_int (gain c), channel c, id_str c,
      str_coefficient sf (m_slope c), str_coefficient sf (b_intercept c)]"
    using record_text_fields[OF p nd] .
  have m: "parse_coefficient pf (str_coefficient sf (m_slope c)) = Inr (m_slope c)"
    and b: "parse_coefficient pf (str_coefficient sf (b_intercept c)) = Inr (b_intercept c)"
    using p str_coefficient_ok(2) by (auto simp: persistable_def)
  obtain dg where dg: "str_int chamber = [dg]" and pi: "py_int [dg] = Inr chamber"
    using ch by (auto simp: str_int_chamber py_int_digit)
  have id2: "id_str c = [dg, sd]" using i dg by simp
  have pos: "py_position grid (chamber - 1) = Inr (nat (chamber - 1))"
    using ch len by (auto simp: py_position_def)
  obtain device where dev: "hw (data_pin c) (clock_pin c) (gain c) (channel c) = Inr device"
    using con by (auto simp: constructible_def split: sum.splits)
  have init: "LoadCell_init hw (data_pin c) (clock_pin c) (gain c)
       (channel c) chamber [sd] (m_slope c) (b_intercept c) = Inr (reloaded hw c)"
    using ch sd i dev reloaded_eq[of hw c device]
    by (auto simp: LoadCell_init_def raising_def py_upper_side)
  show ?thesis
    unfolding load_record_def Let_def f
    by (simp add: raising_def py_index_nth py_int_str_int id2 pi m b pos init)
qed

lemma load_chamber:
  assumes ok: "chamber_ok d cs" and d: "str_int chamber = [d]" and ch: "chamber \<in> {1, 2, 3, 4}"
    and len: "length grid = 4" and empty: "grid ! nat (chamber - 1) = []"
    and pers: "\<forall>c\<in>set cs. persistable sf pf c" and con: "\<forall>c\<in>set cs. constructible hw c"
  shows "load_records hw pf grid (map (record_text sf) cs @ rest)
           = load_records hw pf (grid[nat (chamber - 1) := map (reloaded hw) cs]) rest"
proof -
  let ?k = "nat (chamber - 1)"
  have k: "?k < length grid" using ch len by auto
  from ok consider
      (none) "cs = []"
    | (left) l where "cs = [l]" "id_str l = [d, CHR ''L'']"
    | (right) r where "cs = [r]" "id_str r = [d, CHR ''R'']"
    | (both) l r where "cs = [l, r]" "id_str l = [d, CHR ''L'']" "id_str r = [d, CHR ''R'']"
    by (auto simp: chamber_ok_def)
  then show ?thesis
  proof cases
    case none
    have "grid[?k := []] = grid" using empty k by (metis list_update_id)
    with none show ?thesis by simp
  next
    case left
    have "load_record hw pf grid (record_text sf l)
        = Inr (grid[?k := py_insert 0 (reloaded hw l) (grid ! ?k)])"
      using load_record_cell[of sf pf l chamber "CHR ''L''" grid hw] pers con left d ch len by simp
    with left empty show ?thesis by (simp add: py_insert_def)
  next
    case right
    have "load_record hw pf grid (record_text sf r)
        = Inr (grid[?k := py_insert 1 (reloaded hw r) (grid ! ?k)])"
      using load_record_cell[of sf pf r chamber "CHR ''R''" grid hw] pers con right d ch len by simp
    with right empty show ?thesis by (simp add: py_insert_def)
  next
    case both
    let ?g1 = "grid[?k := [reloaded hw l]]"
    have s1: "load_record hw pf grid (record_text sf l) = Inr ?g1"
      using load_record_cell[of sf pf l chamber "CHR ''L''" grid hw] pers con both d ch len empty
      by (simp add: py_insert_def)
    have len1: "length ?g1 = 4" using len by simp
    have "load_record hw pf ?g1 (record_text sf r)
        = Inr (?g1[?k := py_insert 1 (reloaded hw r) (?g1 ! ?k)])"
      using load_record_cell[of sf pf r chamber "CHR ''R''" ?g1 hw] pers con both d ch len1 by simp
    then have s2: "load_record hw pf ?g1 (record_text sf r)
        = Inr (grid[?k := [reloaded hw l, reloaded hw r]])"
      using k by (simp add: py_insert_def)
    from both s1 s2 show ?thesis by simp
  qed
qed

lemma chamber_ok_no_delimiter:
  assumes "chamber_ok d cs" and "d \<in> {CHR ''1'', CHR ''2'', CHR ''3'', CHR ''4''}" and "c \<in> set cs"
  shows "no_delimiter (id_str c)"
proof -
  from assms(1,3) have "id_str c = [d, CHR ''L''] \<or> id_str c = [d, CHR ''R'']"
    by (auto simp: chamber_ok_def)
  with assms(2) show ?thesis by (auto simp: no_delimiter_def)
qed

lemma list_all2_map_self: "(\<And>x. P x (f x)) \<Longrightarrow> list_all2 P xs (map f xs)"
  by (induction xs) auto

text \<open>
  Claim C2. Take an array of the data model (four chambers, at most one sensor per slot)
  whose sensors are persistable, with their coefficients set or unset in any combination.
  The text that \<open>save_array\<close> writes, loaded by \<open>load_array\<close> into a newly constructed
  array, gives without exception an array with the same number of sensors, in which every
  chamber holds, in the same order, sensors with the same data pin, clock pin, gain,
  channel, id, slope and intercept as the sensors saved.
\<close>

theorem save_load_round_trip:
  assumes g: "grid_ok (cells arr)"
    and p: "\<forall>c\<in>set (concat (cells arr)). persistable str_float py_float c"
    and k: "\<forall>c\<in>set (concat (cells arr)). constructible hw c"
    and fresh: "LoadCellArray_init [] = Inr fresh"
  shows "load_array hw py_float fresh (save_array str_float arr)
           = (\<lparr>cells = map (map (reloaded hw)) (cells arr),
               num_cells = length (concat (cells arr))\<rparr>, None) \<and>
         list_all2 (list_all2 (\<lambda>c c'. data_pin c' = data_pin c \<and> clock_pin c' = clock_pin c
                                  \<and> gain c' = gain c \<and> channel c' = channel c
                                  \<and> id_str c' = id_str c \<and> m_slope c' = m_slope c
                                  \<and> b_intercept c' = b_intercept c))
           (cells arr) (cells (fst (load_array hw py_float fresh (save_array str_float arr))))"
proof -
  from g obtain c1 c2 c3 c4 where cs: "cells arr = [c1, c2, c3, c4]"
    and ok: "chamber_ok CHR ''1'' c1" "chamber_ok CHR ''2'' c2" "chamber_ok CHR ''3'' c3"
            "chamber_ok CHR ''4'' c4"
    by (auto simp: grid_ok_def split: list.splits)
  let ?all = "c1 @ c2 @ c3 @ c4"
  let ?r = "reloaded hw"
  have p1: "\<forall>c\<in>set c1. persistable str_float py_float c"
    and p2: "\<forall>c\<in>set c2. persistable str_float py_float c"
    and p3: "\<forall>c\<in>set c3. persistable str_float py_float c"
    and p4: "\<forall>c\<in>set c4. persistable str_float py_float c"
    using p cs by auto
  have k1: "\<forall>c\<in>set c1. constructible hw c" and k2: "\<forall>c\<in>set c2. constructible hw c"
    and k3: "\<forall>c\<in>set c3. constructible hw c" and k4: "\<forall>c\<in>set c4. constructible hw c"
    using k cs by auto
  have nobar: "\<forall>c\<in>set ?all. CHR ''|'' \<notin> set (record_text str_float c)"
  proof
    fix c assume c: "c \<in> set ?all"
    then have "no_delimiter (id_str c)"
      using ok chamber_ok_no_delimiter by (auto simp del: insert_iff)
    moreover have "persistable str_float py_float c" using c p cs by auto
    ultimately show "CHR ''|'' \<notin> set (record_text str_float c)"
      using record_text_no_bar by blast
  qed
  have sv: "save_array str_float arr = concat (map (write_str str_float) ?all)"
    by (simp add: save_array_def cs)
  have recs: "butlast (py_split CHR ''|'' (save_array str_float arr))
      = map (record_text str_float) c1 @ map (record_text str_float) c2
        @ map (record_text str_float) c3 @ map (record_text str_float) c4"
    unfolding sv split_records[OF nobar] by (simp add: butlast_append)
  have fr: "fresh = \<lparr>cells = [[], [], [], []], num_cells = 0\<rparr>"
    using fresh by (simp add: LoadCellArray_init_def)
  have l1: "load_records hw py_float [[], [], [], []]
       (map (record_text str_float) c1 @ map (record_text str_float) c2
        @ map (record_text str_float) c3 @ map (record_text str_float) c4)
     = load_records hw py_float [map ?r c1, [], [], []]
       (map (record_text str_float) c2 @ map (record_text str_float) c3
        @ map (record_text str_float) c4)"
    using load_chamber[OF ok(1) str_int_chamber(1) _ _ _ p1 k1, of "[[], [], [], []]"] by simp
  have l2: "load_records hw py_float [map ?r c1, [], [], []]
       (map (record_text str_float) c2 @ map (record_text str_float) c3
        @ map (record_text str_float) c4)
     = load_records hw py_float [map ?r c1, map ?r c2, [], []]
       (map (record_text str_float) c3 @ map (record_text str_float) c4)"
    using load_chamber[OF ok(2) str_int_chamber(2) _ _ _ p2 k2, of "[map ?r c1, [], [], []]"] by simp
  have l3: "load_records hw py_float [map ?r c1, map ?r c2, [], []]
       (map (record_text str_float) c3 @ map (record_text str_float) c4)
     = load_records hw py_float [map ?r c1, map ?r c2, map ?r c3, []]
       (map (record_text str_float) c4)"
    using load_chamber[OF ok(3) str_int_chamber(3) _ _ _ p3 k3, of "[map ?r c1, map ?r c2, [], []]"]
    by simp
  have l4: "load_records hw py_float [map ?r c1, map ?r c2, map ?r c3, []]
       (map (record_text str_float) c4)
     = load_records hw py_float [map ?r c1, map ?r c2, map ?r c3, map ?r c4] []"
    using load_chamber[OF ok(4) str_int_chamber(4) _ _ _ p4 k4,
        of "[map ?r c1, map ?r c2, map ?r c3, []]" "[]"]
    by simp
  have main: "load_array hw py_float fresh (save_array str_float arr)
           = (\<lparr>cells = map (map ?r) (cells arr), num_cells = length (concat (cells arr))\<rparr>, None)"
    unfolding load_array_def Let_def recs fr
    by (simp add: l1 l2 l3 l4 cs)
  have "list_all2 (list_all2 (\<lambda>c c'. data_pin c' = data_pin c \<and> clock_pin c' = clock_pin c
                                  \<and> gain c' = gain c \<and> channel c' = channel c
                                  \<and> id_str c' = id_str c \<and> m_slope c' = m_slope c
                                  \<and> b_intercept c' = b_intercept c))
           (cells arr) (map (map ?r) (cells arr))"
    by (intro list_all2_map_self) (simp add: reloaded_def)
  with main show ?thesis by simp
qed

lemma str_int_eval:
  "str_int 5 = ''5''" "str_int 6 = ''6''" "str_int 7 = ''7''" "str_int 8 = ''8''"
  "str_int 9 = ''9''" "str_int 10 = ''10''" "str_int 128 = ''128''"
  by (simp_all add: str_int_def show_nat.simps digit_char_eval)

text \<open>
  Sensors in 1L, 1R and 3R, the second without slope and the third without intercept:
  the text written, and the array read back from it.
\<close>

theorem save_load_round_trip_witness:
  "grid_ok (demo_grid [] None) \<and>
   LoadCellArray_init [] = Inr \<lparr>cells = [[], [], [], []], num_cells = 0\<rparr> \<and>
   save_array demo_str_float \<lparr>cells = demo_grid [] None, num_cells = 3\<rparr>
     = ''5,6,128,A,1L,2.0,1.0|7,8,128,A,1R,None,0.0|9,10,128,A,3R,1.0,None|'' \<and>
   load_array demo_hx711 demo_py_float \<lparr>cells = [[], [], [], []], num_cells = 0\<rparr>
       ''5,6,128,A,1L,2.0,1.0|7,8,128,A,1R,None,0.0|9,10,128,A,3R,1.0,None|''
     = (\<lparr>cells = demo_grid [] None, num_cells = 3\<rparr>, None)"
proof -
  let ?arr = "\<lparr>cells = demo_grid [] None, num_cells = 3\<rparr>"
  have g: "grid_ok (cells ?arr)"
    by (simp add: grid_ok_def chamber_ok_def demo_grid_def demo_cell_at_def)
  have p: "\<forall>c\<in>set (concat (cells ?arr)). persistable demo_str_float demo_py_float c"
    by (simp add: demo_grid_def demo_cell_at_def persistable_def coefficient_ok_def
        no_delimiter_def demo_str_float_def demo_py_float_def)
  have f: "LoadCellArray_init [] = Inr \<lparr>cells = [[], [], [], []], num_cells = 0\<rparr>"
    by (simp add: LoadCellArray_init_def)
  have s: "save_array demo_str_float ?arr
     = ''5,6,128,A,1L,2.0,1.0|7,8,128,A,1R,None,0.0|9,10,128,A,3R,1.0,None|''"
    by (simp add: save_array_def write_str_def str_coefficient_def demo_grid_def demo_cell_at_def
        demo_str_float_def str_int_eval)
  have r: "map (map (reloaded demo_hx711)) (demo_grid [] None) = demo_grid [] None"
    by (simp add: demo_grid_def demo_cell_at_def reloaded_def demo_hx711_def)
  have k: "\<forall>c\<in>set (concat (cells ?arr)). constructible demo_hx711 c"
    by (simp add: demo_grid_def demo_cell_at_def constructible_def demo_hx711_def)
  from save_load_round_trip[OF g p k f] s r g f
  show ?thesis by (simp add: demo_grid_def)
qed

text \<open>
  The two conditions of the round trip are needed. A channel that contained a comma would
  shift the fields of its record, and the load would fail.
\<close>

lemma channel_with_comma_not_reloaded:
  "save_array demo_str_float
       \<lparr>cells = [[(demo_cell [] None None)\<lparr>channel := ''A,B''\<rparr>], [], [], []], num_cells = 1\<rparr>
     = ''5,6,128,A,B,1L,None,None|'' \<and>
   load_array demo_hx711 demo_py_float \<lparr>cells = [[], [], [], []], num_cells = 0\<rparr>
       ''5,6,128,A,B,1L,None,None|''
     = (\<lparr>cells = [[], [], [], []], num_cells = 1\<rparr>, Some ValueError)"
  by (simp add: save_array_def write_str_def str_coefficient_def demo_cell_def str_int_eval
      load_array_def load_record_def raising_def py_index_nth py_int_def py_strip_def is_space_def
      digits_def is_digit_def digit_val_def)

text \<open>
  \<open>load_array\<close> does not empty the chamber lists: loading into the array that was saved
  adds the loaded sensors to the ones it holds.
\<close>

lemma load_into_populated_array:
  "load_array demo_hx711 demo_py_float (demo_array [] None None)
       (save_array demo_str_float (demo_array [] None None))
     = (\<lparr>cells = [[demo_cell [] None None, demo_cell [] None None], [], [], []], num_cells = 1\<rparr>, None)"
  by (simp add: save_array_def write_str_def str_coefficient_def demo_array_def demo_cell_def
      str_int_eval load_array_def load_record_def raising_def py_index_nth py_position_def
      py_int_def py_strip_def is_space_def digits_def is_digit_def digit_val_def
      parse_coefficient_def LoadCell_init_def demo_hx711_def py_upper_def py_insert_def
      str_int_chamber)

end
